theory Spec2Isabelle
  imports Main "HOL-Library.AList"
begin

section \<open>Strings and exceptions\<close>

text \<open>
  A Python string is represented by its UTF-8 encoding, a \<^typ>\<open>string\<close> of bytes:
  equality, concatenation, \<open>join\<close> and \<open>split\<close> at an ASCII separator are the same on
  both sides.

  \<open>str.lower\<close> is a built-in of Python that follows the Unicode tables. \<open>lower\<close> is
  the lower-casing of the ASCII letters \<open>A\<close>..\<open>Z\<close>, which is what \<open>str.lower\<close> does to
  a string of ASCII characters. Where a statement is about arbitrary strings, the
  lower-casing function is a parameter instead.
\<close>

definition lower_char :: "char \<Rightarrow> char" where
  "lower_char c =
     (let n = (of_char c :: nat) in if 65 \<le> n \<and> n \<le> 90 then char_of (n + 32) else c)"

definition lower :: "string \<Rightarrow> string" where
  "lower s = map lower_char s"

text \<open>
  \<open>str.strip\<close> removes from both ends the characters for which \<open>str.isspace\<close> holds:
  U+0009..U+000D, U+001C..U+0020, U+0085, U+00A0, U+1680, U+2000..U+200A, U+2028,
  U+2029, U+202F, U+205F and U+3000, here by their encodings of one, two or three bytes.
\<close>

definition whitespace :: "string list" where
  "whitespace =
     [[CHR 0x09], [CHR 0x0A], [CHR 0x0B], [CHR 0x0C], [CHR 0x0D],
      [CHR 0x1C], [CHR 0x1D], [CHR 0x1E], [CHR 0x1F], [CHR 0x20],
      [CHR 0xC2, CHR 0x85], [CHR 0xC2, CHR 0xA0],
      [CHR 0xE1, CHR 0x9A, CHR 0x80],
      [CHR 0xE2, CHR 0x80, CHR 0x80], [CHR 0xE2, CHR 0x80, CHR 0x81],
      [CHR 0xE2, CHR 0x80, CHR 0x82], [CHR 0xE2, CHR 0x80, CHR 0x83],
      [CHR 0xE2, CHR 0x80, CHR 0x84], [CHR 0xE2, CHR 0x80, CHR 0x85],
      [CHR 0xE2, CHR 0x80, CHR 0x86], [CHR 0xE2, CHR 0x80, CHR 0x87],
      [CHR 0xE2, CHR 0x80, CHR 0x88], [CHR 0xE2, CHR 0x80, CHR 0x89],
      [CHR 0xE2, CHR 0x80, CHR 0x8A],
      [CHR 0xE2, CHR 0x80, CHR 0xA8], [CHR 0xE2, CHR 0x80, CHR 0xA9],
      [CHR 0xE2, CHR 0x80, CHR 0xAF], [CHR 0xE2, CHR 0x81, CHR 0x9F],
      [CHR 0xE3, CHR 0x80, CHR 0x80]]"

definition is_space :: "string \<Rightarrow> bool" where
  "is_space w = (w \<in> set whitespace)"

fun lstrip :: "string \<Rightarrow> string" where
  "lstrip (a # b # c # s) =
     (if is_space [a] then lstrip (b # c # s)
      else if is_space [a, b] then lstrip (c # s)
      else if is_space [a, b, c] then lstrip s
      else a # b # c # s)"
| "lstrip [a, b] =
     (if is_space [a] then lstrip [b] else if is_space [a, b] then [] else [a, b])"
| "lstrip [a] = (if is_space [a] then [] else [a])"
| "lstrip [] = []"

text \<open>The same from the other end, on the reversed string.\<close>

fun rstrip_rev :: "string \<Rightarrow> string" where
  "rstrip_rev (c # b # a # s) =
     (if is_space [c] then rstrip_rev (b # a # s)
      else if is_space [b, c] then rstrip_rev (a # s)
      else if is_space [a, b, c] then rstrip_rev s
      else c # b # a # s)"
| "rstrip_rev [c, b] =
     (if is_space [c] then rstrip_rev [b] else if is_space [b, c] then [] else [c, b])"
| "rstrip_rev [c] = (if is_space [c] then [] else [c])"
| "rstrip_rev [] = []"

definition strip :: "string \<Rightarrow> string" where
  "strip s = rev (rstrip_rev (rev (lstrip s)))"

text \<open>\<open>sep.join(xs)\<close>\<close>

fun join :: "string \<Rightarrow> string list \<Rightarrow> string" where
  "join sep [] = []"
| "join sep [x] = x"
| "join sep (x # y # ys) = x @ sep @ join sep (y # ys)"

text \<open>\<open>s.split(sep)\<close> for a one-character separator: an empty string gives one empty piece.\<close>

fun split :: "char \<Rightarrow> string \<Rightarrow> string list" where
  "split sep [] = [[]]"
| "split sep (c # cs) =
     (if c = sep then [] # split sep cs
      else (case split sep cs of [] \<Rightarrow> [[c]] | w # ws \<Rightarrow> (c # w) # ws))"

text \<open>
  The exceptions that the program raises or lets escape, with their message.
  \<open>SystemExit\<close> carries the exit status.
\<close>

datatype exn =
    ValueError string
  | AttributeError string
  | TypeError string
  | OSError string
  | RuntimeError string
  | SystemExit int
  | KeyboardInterrupt

section \<open>The Claude provider (providers/claude.py, providers/base.py)\<close>

text \<open>The two class-level dictionaries, in declaration order.\<close>

definition MODELS :: "(string \<times> string) list" where
  "MODELS =
     [(''haiku'', ''claude-haiku-4-5-20251001''),
      (''sonnet'', ''claude-sonnet-4-5-20250929''),
      (''opus'', ''claude-opus-4-1-20250805'')]"

definition MODEL_ALIASES :: "(string \<times> string) list" where
  "MODEL_ALIASES =
     [(''haiku'', ''haiku''),
      (''sonnet'', ''sonnet''),
      (''opus'', ''opus''),
      (''haiku-4'', ''haiku''),
      (''haiku-4-5'', ''haiku''),
      (''4-5-haiku'', ''haiku''),
      (''sonnet-4'', ''sonnet''),
      (''sonnet-4-5'', ''sonnet''),
      (''4-5-sonnet'', ''sonnet''),
      (''opus-4'', ''opus''),
      (''opus-4-1'', ''opus''),
      (''4-1-opus'', ''opus'')]"

definition name :: string where
  "name = ''claude''"

definition get_default_model :: string where
  "get_default_model = ''haiku''"

definition get_available_models :: "string list" where
  "get_available_models = map fst MODELS"

text \<open>\<open>Provider.validate_model\<close>: membership in the list of available models.\<close>

definition validate_model :: "string \<Rightarrow> bool" where
  "validate_model m = (m \<in> set get_available_models)"

text \<open>
  \<open>ClaudeProvider._resolve_model\<close>, with \<open>str.lower\<close> as the parameter \<open>lc\<close>. The
  steps of the source, in order: the default for \<open>None\<close>, lower-casing, one alias
  hop, the lookup in \<open>MODELS\<close>. The error message shows the model after lower-casing
  and alias resolution.
\<close>

definition resolve_model_with :: "(string \<Rightarrow> string) \<Rightarrow> string option \<Rightarrow> exn + string" where
  "resolve_model_with lc model =
     (let m0 = (case model of None \<Rightarrow> get_default_model | Some s \<Rightarrow> s);
          m1 = lc m0;
          m2 = (case map_of MODEL_ALIASES m1 of Some c \<Rightarrow> c | None \<Rightarrow> m1)
      in case map_of MODELS m2 of
           None \<Rightarrow>
             Inl (ValueError (''Unknown model '' @ [CHR 0x27] @ m2 @ [CHR 0x27]
                    @ ''. Available: '' @ join '', '' get_available_models))
         | Some ident \<Rightarrow> Inr ident)"

text \<open>\<open>ClaudeProvider.build_command\<close>, with the same parameter.\<close>

definition build_command_with ::
  "(string \<Rightarrow> string) \<Rightarrow> string \<Rightarrow> string option \<Rightarrow> exn + string list" where
  "build_command_with lc prompt model =
     (case resolve_model_with lc model of
        Inl e \<Rightarrow> Inl e
      | Inr model_id \<Rightarrow>
          Inr [''claude'', ''--model'', model_id,
               ''Answer concisely in under 100 words: '' @ prompt])"

text \<open>
  The two functions at the lower-casing of ASCII letters: what the code computes on
  every model string of ASCII characters, and on every string that \<open>str.lower\<close>
  changes in its ASCII letters only.
\<close>

definition resolve_model :: "string option \<Rightarrow> exn + string" where
  "resolve_model model = resolve_model_with lower model"

definition build_command :: "string \<Rightarrow> string option \<Rightarrow> exn + string list" where
  "build_command prompt model = build_command_with lower prompt model"

text \<open>\<open>ClaudeProvider.__str__\<close>\<close>

definition provider_str :: string where
  "provider_str =
     ''claude (default: '' @ get_default_model @ '', available: ''
       @ join '', '' get_available_models @ '')''"

section \<open>Configuration values (config.py)\<close>

text \<open>
  The configuration is what \<open>json.load\<close> returns: a JSON value. A dictionary is an
  association list in insertion order; \<open>d[k] = v\<close> is \<open>AList.update k v d\<close> (an
  existing key keeps its place, a new key goes to the end) and \<open>k in d\<close>, \<open>d[k]\<close>
  are \<open>map_of d k\<close>. Floating-point numbers are left out.
\<close>

datatype json =
    JNull
  | JBool bool
  | JInt int
  | JStr string
  | JList "json list"
  | JDict "(string \<times> json) list"

type_synonym config = "(string \<times> json) list"

text \<open>Python's truth value of an object, and \<open>x or y\<close>.\<close>

fun truthy :: "json \<Rightarrow> bool" where
  "truthy JNull = False"
| "truthy (JBool b) = b"
| "truthy (JInt i) = (i \<noteq> 0)"
| "truthy (JStr s) = (s \<noteq> [])"
| "truthy (JList xs) = (xs \<noteq> [])"
| "truthy (JDict d) = (d \<noteq> [])"

definition py_or :: "json \<Rightarrow> json \<Rightarrow> json" where
  "py_or x y = (if truthy x then x else y)"

text \<open>An \<open>Optional[str]\<close> as a dynamically typed value.\<close>

fun opt_json :: "string option \<Rightarrow> json" where
  "opt_json None = JNull"
| "opt_json (Some s) = JStr s"

text \<open>\<open>type(v).__name__\<close>, as it appears in the message of an \<open>AttributeError\<close>.\<close>

fun type_name :: "json \<Rightarrow> string" where
  "type_name JNull = ''NoneType''"
| "type_name (JBool b) = ''bool''"
| "type_name (JInt i) = ''int''"
| "type_name (JStr s) = ''str''"
| "type_name (JList xs) = ''list''"
| "type_name (JDict d) = ''dict''"

text \<open>\<open>str(n)\<close> for an integer: its decimal digits.\<close>

fun str_nat :: "nat \<Rightarrow> string" where
  "str_nat n =
     (if n < 10 then [char_of (48 + n)] else str_nat (n div 10) @ [char_of (48 + n mod 10)])"

declare str_nat.simps [simp del]

definition str_int :: "int \<Rightarrow> string" where
  "str_int i = (if i < 0 then ''-'' @ str_nat (nat (- i)) else str_nat (nat i))"

text \<open>
  \<open>str(v)\<close> inside an f-string, for the scalar values. A list or a dictionary never
  reaches it: both are unhashable, and the registry lookup of \<open>get_provider\<close> raises
  before the message is formatted.
\<close>

fun str_scalar :: "json \<Rightarrow> string" where
  "str_scalar JNull = ''None''"
| "str_scalar (JBool b) = (if b then ''True'' else ''False'')"
| "str_scalar (JInt i) = str_int i"
| "str_scalar (JStr s) = s"
| "str_scalar (JList xs) = []"
| "str_scalar (JDict d) = []"

definition DEFAULT_CONFIG :: config where
  "DEFAULT_CONFIG =
     [(''default_provider'', JStr ''claude''),
      (''default_models'',
         JDict [(''claude'', JStr ''haiku''), (''gemini'', JStr ''gemini-flash'')]),
      (''max_response_words'', JInt 100)]"

text \<open>\<open>{**d, **u}\<close>: a new dictionary that receives the items of \<open>d\<close>, then those of \<open>u\<close>.\<close>

definition dict_union :: "config \<Rightarrow> config \<Rightarrow> config" where
  "dict_union d u = fold (\<lambda>(k, v). AList.update k v) (d @ u) []"

text \<open>
  \<open>ConfigManager._merge_with_defaults\<close>: the body of the loop over
  \<open>loaded_config.items()\<close>, and the loop started from a copy of the defaults.
\<close>

fun merge_step :: "string \<times> json \<Rightarrow> config \<Rightarrow> config" where
  "merge_step (key, value) merged =
     (case (map_of merged key, value) of
        (Some (JDict d), JDict u) \<Rightarrow> AList.update key (JDict (dict_union d u)) merged
      | _ \<Rightarrow> AList.update key value merged)"

definition merge_with_defaults :: "config \<Rightarrow> config" where
  "merge_with_defaults loaded_config = fold merge_step loaded_config DEFAULT_CONFIG"

text \<open>
  \<open>ConfigManager.get\<close>: the walk along the segments of the dotted key, which returns
  the default at the first segment that is missing or whose parent is no dictionary.
\<close>

fun get_walk :: "json \<Rightarrow> string list \<Rightarrow> json \<Rightarrow> json" where
  "get_walk value [] dflt = value"
| "get_walk value (k # ks) dflt =
     (case value of
        JDict d \<Rightarrow> (case map_of d k of Some v \<Rightarrow> get_walk v ks dflt | None \<Rightarrow> dflt)
      | _ \<Rightarrow> dflt)"

definition config_get :: "config \<Rightarrow> string \<Rightarrow> json \<Rightarrow> json" where
  "config_get cfg key dflt = get_walk (JDict cfg) (split CHR ''.'' key) dflt"

definition config_get_default_provider :: "config \<Rightarrow> json" where
  "config_get_default_provider cfg = config_get cfg ''default_provider'' (JStr ''claude'')"

definition config_get_default_model :: "config \<Rightarrow> string \<Rightarrow> json" where
  "config_get_default_model cfg provider = config_get cfg (''default_models.'' @ provider) JNull"

definition config_get_max_response_words :: "config \<Rightarrow> json" where
  "config_get_max_response_words cfg = config_get cfg ''max_response_words'' (JInt 100)"

section \<open>The environment and what the program does to it\<close>

text \<open>
  The configuration file is absent, present but unreadable (an \<open>OSError\<close> or a
  \<open>JSONDecodeError\<close>, with its message), present with a content on which reading
  raises an exception that \<open>_load\<close> does not catch (a \<open>ValueError\<close> for an integer of
  too many digits or for bytes that are no UTF-8, a \<open>RecursionError\<close>), or parsed to
  a JSON value. \<open>save_error\<close> is
  the \<open>OSError\<close> that writing the file would raise, if any. \<open>run_outcome\<close> is what
  \<open>subprocess.run\<close> does with a command.
\<close>

datatype config_file = Missing | Unreadable string | Uncaught exn | Parsed json

datatype outcome = Exited int | Interrupted | Failed string

record world =
  config_file :: config_file
  config_path :: string
  save_error :: "string option"
  claude_on_path :: bool
  run_outcome :: "string list \<Rightarrow> outcome"

text \<open>
  The observable actions, in the order they happen: a line printed to standard output
  or to the diagnostic stream, the configuration printed as JSON, the usage text of the
  argument parser, the configuration file written, the external command run.
\<close>

datatype event =
    Stdout string
  | Stderr string
  | StdoutJson config
  | StderrUsage
  | SaveFile config
  | Run "string list"

text \<open>\<open>ConfigManager._save\<close>: a failure is reported as a warning and is not fatal.\<close>

definition save :: "world \<Rightarrow> config \<Rightarrow> event list" where
  "save w cfg =
     (case save_error w of
        None \<Rightarrow> [SaveFile cfg]
      | Some e \<Rightarrow>
          [Stdout (''Warning: Failed to save config to '' @ config_path w @ '': '' @ e)])"

text \<open>
  \<open>ConfigManager.__init__\<close> with \<open>_load\<close>. A parsed value that is no dictionary has no
  \<open>items\<close>: the \<open>AttributeError\<close> is not among the exceptions \<open>_load\<close> catches, and
  leaves the constructor like every other exception that is not caught there.
\<close>

definition ConfigManager :: "world \<Rightarrow> (exn + config) \<times> event list" where
  "ConfigManager w =
     (case config_file w of
        Parsed (JDict loaded_config) \<Rightarrow> (Inr (merge_with_defaults loaded_config), [])
      | Parsed v \<Rightarrow>
          (Inl (AttributeError ([CHR 0x27] @ type_name v @ [CHR 0x27]
                  @ '' object has no attribute '' @ [CHR 0x27] @ ''items'' @ [CHR 0x27])), [])
      | Uncaught e \<Rightarrow> (Inl e, [])
      | Unreadable e \<Rightarrow>
          (Inr DEFAULT_CONFIG,
           [Stdout (''Warning: Failed to load config from '' @ config_path w @ '': '' @ e),
            Stdout ''Using default configuration.''])
      | Missing \<Rightarrow> (Inr DEFAULT_CONFIG, save w DEFAULT_CONFIG))"

definition reset_to_defaults :: "world \<Rightarrow> config \<times> event list" where
  "reset_to_defaults w = (DEFAULT_CONFIG, save w DEFAULT_CONFIG)"

section \<open>Command-line arguments (cli.py)\<close>

text \<open>The namespace that \<open>argparse\<close> returns.\<close>

record namespace =
  args_prompt :: "string option"
  args_provider :: "string option"
  args_model :: "string option"
  args_list_providers :: bool
  args_list_models :: "string option"
  args_config_path :: bool
  args_config_show :: bool
  args_config_reset :: bool
  args_verbose :: bool
  args_dry_run :: bool

text \<open>
  \<open>parse_args\<close>, after the call of the parser: a prompt is required unless one of the
  informational or configuration flags is set. \<open>parser.error\<close> exits with status 2.
\<close>

definition parse_args :: "namespace \<Rightarrow> exn + namespace" where
  "parse_args parsed =
     (if \<not> (args_list_providers parsed \<or> truthy (opt_json (args_list_models parsed))
             \<or> args_config_path parsed \<or> args_config_show parsed \<or> args_config_reset parsed)
         \<and> \<not> truthy (opt_json (args_prompt parsed))
      then Inl (SystemExit 2) else Inr parsed)"

definition validate_args :: "namespace \<Rightarrow> exn + unit" where
  "validate_args args =
     (if (case args_list_models args of None \<Rightarrow> False | Some s \<Rightarrow> s \<noteq> [] \<and> strip s = [])
      then Inl (ValueError ''--list-models requires a provider name'')
      else if args_dry_run args
              \<and> (args_config_path args \<or> args_config_show args \<or> args_config_reset args)
      then Inl (ValueError ''--dry-run cannot be used with configuration flags'')
      else Inr ())"

section \<open>The entry point (main.py)\<close>

datatype provider = ClaudeProvider

definition providers :: "(string \<times> provider) list" where
  "providers = [(''claude'', ClaudeProvider)]"

text \<open>
  \<open>get_provider\<close>. The name comes from the command line or from the configuration,
  where it can be any JSON value: a list or a dictionary cannot be looked up in the
  registry (\<open>TypeError\<close>), any other value that is no key of it is an unknown provider.
\<close>

definition unknown_provider :: "string \<Rightarrow> exn" where
  "unknown_provider shown =
     ValueError (''Unknown provider '' @ [CHR 0x27] @ shown @ [CHR 0x27]
       @ ''. Available: '' @ join '', '' (map fst providers))"

fun get_provider :: "json \<Rightarrow> exn + provider" where
  "get_provider (JStr s) =
     (case map_of providers s of
        None \<Rightarrow> Inl (unknown_provider s)
      | Some p \<Rightarrow> Inr p)"
| "get_provider (JList xs) =
     Inl (TypeError (''unhashable type: '' @ [CHR 0x27] @ ''list'' @ [CHR 0x27]))"
| "get_provider (JDict d) =
     Inl (TypeError (''unhashable type: '' @ [CHR 0x27] @ ''dict'' @ [CHR 0x27]))"
| "get_provider v = Inl (unknown_provider (str_scalar v))"

text \<open>\<open>str(e)\<close> of an exception.\<close>

fun exn_str :: "exn \<Rightarrow> string" where
  "exn_str (ValueError m) = m"
| "exn_str (AttributeError m) = m"
| "exn_str (TypeError m) = m"
| "exn_str (OSError m) = m"
| "exn_str (RuntimeError m) = m"
| "exn_str (SystemExit n) = str_int n"
| "exn_str KeyboardInterrupt = []"

text \<open>
  What becomes of an exception raised inside the \<open>try\<close> block of \<open>main\<close>, after the
  events \<open>out\<close>: \<open>SystemExit\<close> is no \<open>Exception\<close> and ends the process with its status,
  an interrupt gives 130, everything else is printed and gives 1.
\<close>

fun top_level :: "exn \<Rightarrow> event list \<Rightarrow> int \<times> event list" where
  "top_level (SystemExit n) out = (n, out)"
| "top_level KeyboardInterrupt out = (130, out @ [Stderr (CHR 0x0A # ''Interrupted'')])"
| "top_level e out = (1, out @ [Stderr (''Error: '' @ exn_str e)])"

text \<open>The mark in front of a provider: U+2713 or U+2717, in UTF-8.\<close>

definition availability_mark :: "bool \<Rightarrow> string" where
  "availability_mark ok =
     (if ok then [CHR 0xE2, CHR 0x9C, CHR 0x93] else [CHR 0xE2, CHR 0x9C, CHR 0x97])"

definition list_providers :: "world \<Rightarrow> event list" where
  "list_providers w =
     [Stdout ''Available providers:'',
      Stdout (''  '' @ availability_mark (claude_on_path w) @ '' '' @ provider_str)]"

text \<open>\<open>list_models\<close>: the events, and the exit status when it calls \<open>sys.exit\<close>.\<close>

definition list_models :: "string \<Rightarrow> event list \<times> int option" where
  "list_models provider_name =
     (case get_provider (JStr provider_name) of
        Inl e \<Rightarrow> ([Stderr (''Error: '' @ exn_str e)], Some 1)
      | Inr p \<Rightarrow>
          (Stdout (''Available models for '' @ provider_name @ '':'')
           # map (\<lambda>m. Stdout (''  - '' @ m
                     @ (if m = get_default_model then '' (default)'' else [])))
               get_available_models,
           None))"

text \<open>
  The line \<open>model = args.model or config.get_default_model(provider_name) or
  provider.get_default_model()\<close> of \<open>main\<close>.
\<close>

definition effective_model :: "namespace \<Rightarrow> config \<Rightarrow> string \<Rightarrow> json" where
  "effective_model args cfg provider_name =
     py_or (py_or (opt_json (args_model args)) (config_get_default_model cfg provider_name))
       (JStr get_default_model)"

text \<open>
  The call \<open>provider.build_command(args.prompt, model)\<close> on dynamically typed
  arguments: a model that is no string has no method \<open>lower\<close>, a prompt that is
  \<open>None\<close> is formatted as such.
\<close>

definition call_build_command :: "string option \<Rightarrow> json \<Rightarrow> exn + string list" where
  "call_build_command prompt model =
     (let p = (case prompt of None \<Rightarrow> ''None'' | Some s \<Rightarrow> s)
      in case model of
           JNull \<Rightarrow> build_command p None
         | JStr m \<Rightarrow> build_command p (Some m)
         | v \<Rightarrow>
             Inl (AttributeError ([CHR 0x27] @ type_name v @ [CHR 0x27]
                    @ '' object has no attribute '' @ [CHR 0x27] @ ''lower'' @ [CHR 0x27])))"

text \<open>The part of \<open>main\<close> after the informational and configuration commands.\<close>

definition invoke :: "world \<Rightarrow> namespace \<Rightarrow> config \<Rightarrow> event list \<Rightarrow> int \<times> event list" where
  "invoke w args cfg out =
     (let provider_name = py_or (opt_json (args_provider args)) (config_get_default_provider cfg)
      in case get_provider provider_name of
           Inl e \<Rightarrow> top_level e out
         | Inr p \<Rightarrow>
             if \<not> claude_on_path w
             then (1, out @ [Stderr (''Error: '' @ str_scalar provider_name
                               @ '' CLI not found. Please install it first.'')])
             else
               (let model = effective_model args cfg (str_scalar provider_name)
                in case call_build_command (args_prompt args) model of
                     Inl (ValueError m) \<Rightarrow> (1, out @ [Stderr (''Error: '' @ m)])
                   | Inl e \<Rightarrow> top_level e out
                   | Inr command \<Rightarrow>
                       (let out' = out @ (if args_verbose args \<or> args_dry_run args
                                          then [Stderr (''Command: '' @ join '' '' command)]
                                          else [])
                        in if args_dry_run args then (0, out')
                           else (case run_outcome w command of
                                   Exited n \<Rightarrow> (n, out' @ [Run command])
                                 | Interrupted \<Rightarrow> top_level KeyboardInterrupt (out' @ [Run command])
                                 | Failed e \<Rightarrow> top_level (OSError e) (out' @ [Run command])))))"

text \<open>
  \<open>main\<close> on the namespace the parser produced: the exit status of the process and
  the events in order.
\<close>

definition main :: "world \<Rightarrow> namespace \<Rightarrow> int \<times> event list" where
  "main w parsed =
     (case parse_args parsed of
        Inl e \<Rightarrow>
          top_level e
            [StderrUsage, Stderr ''askai: error: the following arguments are required: prompt'']
      | Inr args \<Rightarrow>
          (case validate_args args of
             Inl e \<Rightarrow> top_level e []
           | Inr _ \<Rightarrow>
               (case ConfigManager w of
                  (Inl e, out) \<Rightarrow> top_level e out
                | (Inr cfg, out) \<Rightarrow>
                    if args_list_providers args then (0, out @ list_providers w)
                    else if truthy (opt_json (args_list_models args))
                    then (case list_models (str_scalar (opt_json (args_list_models args))) of
                            (evs, Some n) \<Rightarrow> (n, out @ evs)
                          | (evs, None) \<Rightarrow> (0, out @ evs))
                    else if args_config_path args
                    then (0, out @ [Stdout (''Configuration file: '' @ config_path w)])
                    else if args_config_show args then (0, out @ [StdoutJson cfg])
                    else if args_config_reset args
                    then (case reset_to_defaults w of
                            (cfg', evs) \<Rightarrow>
                              (0, out @ evs
                                  @ [Stdout ''Configuration reset to defaults'', StdoutJson cfg']))
                    else invoke w args cfg out)))"

section \<open>Notions used in the statements\<close>






text \<open>
  What one round of the merge loop stores under a key, from the value found there
  before and the loaded value.
\<close>

fun merge_value :: "json option \<Rightarrow> json \<Rightarrow> json" where
  "merge_value (Some (JDict d)) (JDict u) = JDict (dict_union d u)"
| "merge_value old v = v"

text \<open>Concrete environments and command lines, for the examples.\<close>

definition always_exits :: "int \<Rightarrow> string list \<Rightarrow> outcome" where
  "always_exits n command = Exited n"

definition example_world :: "config_file \<Rightarrow> world" where
  "example_world f =
     \<lparr>config_file = f, config_path = ''/home/user/.config/askai/config.json'',
      save_error = None, claude_on_path = True, run_outcome = always_exits 0\<rparr>"

definition no_flags :: namespace where
  "no_flags =
     \<lparr>args_prompt = None, args_provider = None, args_model = None,
      args_list_providers = False, args_list_models = None, args_config_path = False,
      args_config_show = False, args_config_reset = False, args_verbose = False,
      args_dry_run = False\<rparr>"

definition example_loaded :: config where
  "example_loaded =
     [(''default_models'', JDict [(''third'', JStr ''x'')]), (''extra'', JInt 1)]"

definition dry_run_reset :: namespace where
  "dry_run_reset = no_flags\<lparr>args_dry_run := True, args_config_reset := True\<rparr>"

definition dry_run_list_providers :: namespace where
  "dry_run_list_providers = no_flags\<lparr>args_dry_run := True, args_list_providers := True\<rparr>"

definition sonnet_config :: config where
  "sonnet_config = [(''default_models'', JDict [(''claude'', JStr ''sonnet'')])]"

definition empty_model_flag :: namespace where
  "empty_model_flag = no_flags\<lparr>args_prompt := Some ''hi'', args_model := Some []\<rparr>"

definition opus_flag :: namespace where
  "opus_flag = no_flags\<lparr>args_prompt := Some ''hi'', args_model := Some ''opus''\<rparr>"

definition words_100 :: config where
  "words_100 = [(''max_response_words'', JInt 100)]"

definition words_5 :: config where
  "words_5 = [(''max_response_words'', JInt 5)]"

definition ask_hi :: namespace where
  "ask_hi = no_flags\<lparr>args_prompt := Some ''hi''\<rparr>"

section \<open>Properties of the provider\<close>

subsection \<open>The two tables\<close>

lemma MODELS_keys_aliases: "set (map fst MODELS) \<subseteq> set (map fst MODEL_ALIASES)"
  by (simp add: MODELS_def MODEL_ALIASES_def)

lemma not_alias_not_model: "map_of MODEL_ALIASES x = None \<Longrightarrow> map_of MODELS x = None"
  using MODELS_keys_aliases by (auto simp add: map_of_eq_None_iff)

lemma join_available: "join '', '' get_available_models = ''haiku, sonnet, opus''"
  by (simp add: get_available_models_def MODELS_def)

lemma alias_target_short:
  assumes "map_of MODEL_ALIASES a = Some c"
  shows "c \<in> {''haiku'', ''sonnet'', ''opus''}"
proof -
  from assms have "(a, c) \<in> set MODEL_ALIASES"
    by (rule map_of_SomeD)
  then show ?thesis
    by (auto simp add: MODEL_ALIASES_def)
qed

lemma short_cases:
  assumes "c \<in> {''haiku'', ''sonnet'', ''opus''}"
  obtains "c = ''haiku''" | "c = ''sonnet''" | "c = ''opus''"
  using assms by blast

lemma alias_short_fixed:
  assumes "c \<in> {''haiku'', ''sonnet'', ''opus''}"
  shows "map_of MODEL_ALIASES c = Some c"
  using assms by (rule short_cases) (simp_all add: MODEL_ALIASES_def)

lemma short_in_MODELS:
  assumes "c \<in> {''haiku'', ''sonnet'', ''opus''}"
  shows "\<exists>ident. map_of MODELS c = Some ident"
  using assms by (rule short_cases) (simp_all add: MODELS_def)

lemma lower_short:
  assumes "c \<in> {''haiku'', ''sonnet'', ''opus''}"
  shows "lower c = c"
  using assms by (rule short_cases) (simp_all add: lower_def lower_char_def)

lemma lower_alias_key: "a \<in> set (map fst MODEL_ALIASES) \<Longrightarrow> lower a = a"
  by (auto simp add: MODEL_ALIASES_def lower_def lower_char_def)

lemma alias_key_lookup:
  assumes "n \<in> set (map fst MODEL_ALIASES)"
  obtains c where "map_of MODEL_ALIASES n = Some c"
proof (cases "map_of MODEL_ALIASES n")
  case None
  then have "n \<notin> fst ` set MODEL_ALIASES"
    by (simp add: map_of_eq_None_iff)
  then show ?thesis using assms by simp
next
  case (Some c)
  then show ?thesis by (rule that)
qed

lemma lower_HAIKU: "lower ''HAIKU'' = ''haiku''"
  by code_simp

lemma lower_Haiku: "lower ''Haiku'' = ''haiku''"
  by code_simp

subsection \<open>Resolution, case by case\<close>

lemma build_command_unfold:
  "build_command prompt model =
     (case resolve_model model of
        Inl e \<Rightarrow> Inl e
      | Inr model_id \<Rightarrow>
          Inr [''claude'', ''--model'', model_id,
               ''Answer concisely in under 100 words: '' @ prompt])"
  by (simp add: build_command_def build_command_with_def resolve_model_def)

lemma resolve_model_with_unknown:
  "map_of MODEL_ALIASES (lc m) = None \<Longrightarrow>
   resolve_model_with lc (Some m) =
     Inl (ValueError (''Unknown model '' @ [CHR 0x27] @ lc m @ [CHR 0x27]
            @ ''. Available: haiku, sonnet, opus''))"
  by (simp add: resolve_model_with_def not_alias_not_model join_available)

lemma resolve_model_with_alias:
  "map_of MODEL_ALIASES (lc m) = Some c \<Longrightarrow> map_of MODELS c = Some ident \<Longrightarrow>
   resolve_model_with lc (Some m) = Inr ident"
  by (simp add: resolve_model_with_def)

lemma resolve_model_with_default:
  "resolve_model_with lc model =
     resolve_model_with lc (Some (case model of None \<Rightarrow> get_default_model | Some m \<Rightarrow> m))"
  by (cases model) (simp_all add: resolve_model_with_def)


lemma resolve_model_unknown:
  "map_of MODEL_ALIASES (lower m) = None \<Longrightarrow>
   resolve_model (Some m) =
     Inl (ValueError (''Unknown model '' @ [CHR 0x27] @ lower m @ [CHR 0x27]
            @ ''. Available: haiku, sonnet, opus''))"
  by (simp add: resolve_model_def resolve_model_with_unknown)

lemma resolve_model_alias:
  "map_of MODEL_ALIASES (lower m) = Some c \<Longrightarrow> map_of MODELS c = Some ident \<Longrightarrow>
   resolve_model (Some m) = Inr ident"
  by (simp add: resolve_model_def resolve_model_with_alias)



lemma resolve_model_None: "resolve_model None = Inr ''claude-haiku-4-5-20251001''"
  by (simp add: resolve_model_def resolve_model_with_def get_default_model_def lower_def lower_char_def
      MODEL_ALIASES_def MODELS_def)


lemma validate_model_iff: "validate_model m \<longleftrightarrow> m \<in> {''haiku'', ''sonnet'', ''opus''}"
  by (auto simp add: validate_model_def get_available_models_def MODELS_def)

lemma build_command_succeeds_iff:
  "(\<exists>cmd. build_command prompt (Some m) = Inr cmd) \<longleftrightarrow> lower m \<in> set (map fst MODEL_ALIASES)"
proof (cases "map_of MODEL_ALIASES (lower m)")
  case None
  then have "lower m \<notin> set (map fst MODEL_ALIASES)"
    by (simp add: map_of_eq_None_iff)
  then show ?thesis using None
    by (simp add: build_command_unfold resolve_model_unknown)
next
  case (Some c)
  then obtain ident where "map_of MODELS c = Some ident"
    using alias_target_short short_in_MODELS by blast
  then have "resolve_model (Some m) = Inr ident"
    using Some by (simp add: resolve_model_alias)
  moreover have "lower m \<in> set (map fst MODEL_ALIASES)"
    using Some by (metis map_of_eq_None_iff option.distinct(1) set_map)
  ultimately show ?thesis
    by (simp add: build_command_unfold)
qed

text \<open>
  The message echoes the model that was asked for: a fully-qualified identifier given
  as the model is unknown, and appears between the quotes of the message.
\<close>

lemma full_identifier_is_unknown:
  "resolve_model (Some ''claude-haiku-4-5-20251001'') =
     Inl (ValueError (''Unknown model '' @ [CHR 0x27] @ ''claude-haiku-4-5-20251001''
            @ [CHR 0x27] @ ''. Available: haiku, sonnet, opus''))"
  by (simp add: resolve_model_def resolve_model_with_def lower_def lower_char_def MODEL_ALIASES_def MODELS_def
      get_available_models_def)

subsection \<open>The claims about the provider\<close>

text \<open>
  C1: for the prompt \<open>what is python?\<close> and no explicit model, \<open>build_command\<close>
  returns exactly the four arguments \<open>claude\<close>, \<open>--model\<close>,
  \<open>claude-haiku-4-5-20251001\<close> and the prompt behind the conciseness instruction;
  the same list is returned when the default model \<open>haiku\<close> is passed by name.
\<close>

theorem C1_build_command_scenario:
  "build_command ''what is python?'' None =
     Inr [''claude'', ''--model'', ''claude-haiku-4-5-20251001'',
          ''Answer concisely in under 100 words: what is python?'']
   \<and> build_command ''what is python?'' (Some ''haiku'') =
     Inr [''claude'', ''--model'', ''claude-haiku-4-5-20251001'',
          ''Answer concisely in under 100 words: what is python?'']"
  by (simp add: build_command_unfold resolve_model_def resolve_model_with_def get_default_model_def lower_def
      lower_char_def MODEL_ALIASES_def MODELS_def)

text \<open>
  C3: alias resolution is idempotent. Every supported short name, and every alias,
  has a canonical short name \<open>c\<close> in the alias table; \<open>c\<close> is its own canonical name;
  resolving the name and resolving \<open>c\<close> both succeed with the same identifier.
\<close>

theorem C3_alias_resolution_idempotent:
  assumes "n \<in> set get_available_models \<or> n \<in> set (map fst MODEL_ALIASES)"
  shows "\<exists>c ident. map_of MODEL_ALIASES n = Some c \<and> map_of MODEL_ALIASES c = Some c
           \<and> map_of MODELS c = Some ident
           \<and> resolve_model (Some n) = Inr ident \<and> resolve_model (Some c) = Inr ident"
proof -
  have key: "n \<in> set (map fst MODEL_ALIASES)"
    using assms MODELS_keys_aliases by (auto simp add: get_available_models_def)
  then obtain c where c: "map_of MODEL_ALIASES n = Some c"
    by (rule alias_key_lookup)
  then have short: "c \<in> {''haiku'', ''sonnet'', ''opus''}"
    by (rule alias_target_short)
  then have cc: "map_of MODEL_ALIASES c = Some c"
    by (rule alias_short_fixed)
  from short obtain ident where ident: "map_of MODELS c = Some ident"
    using short_in_MODELS by blast
  have "resolve_model (Some n) = Inr ident"
    using c ident lower_alias_key [OF key] by (simp add: resolve_model_alias)
  moreover have "resolve_model (Some c) = Inr ident"
    using cc ident lower_short [OF short] by (simp add: resolve_model_alias)
  ultimately show ?thesis using c cc ident by blast
qed

theorem C3_alias_resolution_idempotent_witness:
  "''sonnet'' \<in> set get_available_models
   \<and> (\<exists>c ident. map_of MODEL_ALIASES ''sonnet'' = Some c \<and> map_of MODEL_ALIASES c = Some c
           \<and> map_of MODELS c = Some ident
           \<and> resolve_model (Some ''sonnet'') = Inr ident \<and> resolve_model (Some c) = Inr ident)"
proof -
  have a: "''sonnet'' \<in> set get_available_models"
    by (simp add: get_available_models_def MODELS_def)
  show ?thesis
    by (intro conjI a C3_alias_resolution_idempotent [OF disjI1, OF a])
qed




text \<open>
  C7: whatever \<open>str.lower\<close> does, when resolution of a model fails, \<open>build_command\<close>
  fails with the \<open>ValueError\<close> whose message is \<open>Unknown model\<close>, the lower-cased
  model between quotes, and \<open>Available:\<close> followed by exactly the three short names
  \<open>haiku, sonnet, opus\<close>. The names enumerated are the keys of \<open>MODELS\<close>, none of
  which is a fully-qualified identifier. The model that failed is one that was given:
  the default resolves as soon as lower-casing leaves it alone.
\<close>

theorem C7_unknown_model_message:
  assumes "resolve_model_with lc model = Inl e"
  shows "build_command_with lc prompt model =
           Inl (ValueError (''Unknown model '' @ [CHR 0x27]
                  @ lc (case model of None \<Rightarrow> get_default_model | Some m \<Rightarrow> m) @ [CHR 0x27]
                  @ ''. Available: '' @ join '', '' [''haiku'', ''sonnet'', ''opus'']))
         \<and> (lc get_default_model = get_default_model \<longrightarrow> model \<noteq> None)
         \<and> get_available_models = [''haiku'', ''sonnet'', ''opus'']
         \<and> (\<forall>ident \<in> set (map snd MODELS). ident \<notin> set get_available_models)"
proof -
  let ?m = "case model of None \<Rightarrow> get_default_model | Some m \<Rightarrow> m"
  have r: "resolve_model_with lc (Some ?m) = Inl e"
    using assms resolve_model_with_default [of lc model] by simp
  have none: "map_of MODEL_ALIASES (lc ?m) = None"
  proof (cases "map_of MODEL_ALIASES (lc ?m)")
    case None
    then show ?thesis .
  next
    case (Some c)
    then obtain ident where "map_of MODELS c = Some ident"
      using alias_target_short short_in_MODELS by blast
    with Some have "resolve_model_with lc (Some ?m) = Inr ident"
      by (rule resolve_model_with_alias [of lc ?m c ident])
    then show ?thesis using r by simp
  qed
  have "resolve_model_with lc model =
          Inl (ValueError (''Unknown model '' @ [CHR 0x27] @ lc ?m @ [CHR 0x27]
                 @ ''. Available: haiku, sonnet, opus''))"
    using resolve_model_with_unknown [of lc ?m, OF none] resolve_model_with_default [of lc model]
    by simp
  then have a: "build_command_with lc prompt model =
           Inl (ValueError (''Unknown model '' @ [CHR 0x27] @ lc ?m @ [CHR 0x27]
                  @ ''. Available: '' @ join '', '' [''haiku'', ''sonnet'', ''opus'']))"
    by (simp add: build_command_with_def)
  have b: "lc get_default_model = get_default_model \<longrightarrow> model \<noteq> None"
  proof (intro impI notI)
    assume "lc get_default_model = get_default_model" and "model = None"
    then have "map_of MODEL_ALIASES (lc ?m) = Some ''haiku''"
      by (simp add: get_default_model_def MODEL_ALIASES_def)
    then show False using none by simp
  qed
  have c: "get_available_models = [''haiku'', ''sonnet'', ''opus'']"
    by (simp add: get_available_models_def MODELS_def)
  have d: "\<forall>ident \<in> set (map snd MODELS). ident \<notin> set get_available_models"
    by (simp add: get_available_models_def MODELS_def)
  show ?thesis
    by (intro conjI a b c d)
qed

theorem C7_unknown_model_message_witness:
  "resolve_model_with lower (Some ''gpt-4'') =
     Inl (ValueError (''Unknown model '' @ [CHR 0x27] @ ''gpt-4'' @ [CHR 0x27]
            @ ''. Available: haiku, sonnet, opus''))
   \<and> build_command_with lower ''hi'' (Some ''gpt-4'') =
     Inl (ValueError (''Unknown model '' @ [CHR 0x27] @ ''gpt-4'' @ [CHR 0x27]
            @ ''. Available: haiku, sonnet, opus''))"
proof -
  have a: "resolve_model_with lower (Some ''gpt-4'') =
     Inl (ValueError (''Unknown model '' @ [CHR 0x27] @ ''gpt-4'' @ [CHR 0x27]
            @ ''. Available: haiku, sonnet, opus''))"
    by (simp add: resolve_model_with_def lower_def lower_char_def MODEL_ALIASES_def MODELS_def
        get_available_models_def)
  have l: "lower ''gpt-4'' = ''gpt-4''"
    by (simp add: lower_def lower_char_def)
  have "build_command_with lower ''hi'' (Some ''gpt-4'') =
           Inl (ValueError (''Unknown model '' @ [CHR 0x27]
                  @ lower (case Some ''gpt-4'' of None \<Rightarrow> get_default_model | Some m \<Rightarrow> m)
                  @ [CHR 0x27]
                  @ ''. Available: '' @ join '', '' [''haiku'', ''sonnet'', ''opus'']))"
    by (rule C7_unknown_model_message [OF a, THEN conjunct1])
  then have "build_command_with lower ''hi'' (Some ''gpt-4'') =
     Inl (ValueError (''Unknown model '' @ [CHR 0x27] @ ''gpt-4'' @ [CHR 0x27]
            @ ''. Available: haiku, sonnet, opus''))"
    by (simp add: l)
  with a show ?thesis by (rule conjI)
qed

text \<open>
  C8: \<open>validate_model\<close> accepts exactly the three lower-case short names, while
  \<open>build_command\<close> accepts every string whose lower-case form is a key of the alias
  table. On every such string other than the three short names (an upper-case variant,
  a pure alias) \<open>build_command\<close> succeeds and \<open>validate_model\<close> is false.
\<close>

theorem C8_validate_model_disagrees:
  "(validate_model m \<longleftrightarrow> m \<in> {''haiku'', ''sonnet'', ''opus''})
   \<and> (lower m \<in> set (map fst MODEL_ALIASES) \<and> m \<notin> {''haiku'', ''sonnet'', ''opus''} \<longrightarrow>
        (\<exists>cmd. build_command prompt (Some m) = Inr cmd) \<and> \<not> validate_model m)"
  using build_command_succeeds_iff [of prompt m] validate_model_iff [of m] by blast

theorem C8_validate_model_disagrees_witness:
  "lower ''HAIKU'' \<in> set (map fst MODEL_ALIASES) \<and> ''HAIKU'' \<notin> {''haiku'', ''sonnet'', ''opus''}
   \<and> (\<exists>cmd. build_command ''hi'' (Some ''HAIKU'') = Inr cmd) \<and> \<not> validate_model ''HAIKU''"
proof -
  have a: "lower ''HAIKU'' \<in> set (map fst MODEL_ALIASES)"
    by (simp add: lower_HAIKU MODEL_ALIASES_def)
  have b: "''HAIKU'' \<notin> {''haiku'', ''sonnet'', ''opus''}"
    by simp
  have c: "(\<exists>cmd. build_command ''hi'' (Some ''HAIKU'') = Inr cmd) \<and> \<not> validate_model ''HAIKU''"
    by (rule C8_validate_model_disagrees [THEN conjunct2, THEN mp, OF conjI, OF a b])
  show ?thesis
    by (intro conjI a b c [THEN conjunct1] c [THEN conjunct2])
qed

text \<open>
  The same disagreement on a pure alias.
\<close>

lemma pure_alias_accepted_not_valid:
  "(\<exists>cmd. build_command prompt (Some ''sonnet-4-5'') = Inr cmd) \<and> \<not> validate_model ''sonnet-4-5''"
proof -
  have "lower ''sonnet-4-5'' \<in> set (map fst MODEL_ALIASES)"
    by (simp add: lower_def lower_char_def MODEL_ALIASES_def)
  then show ?thesis
    by (simp add: build_command_succeeds_iff validate_model_iff)
qed

text \<open>
  C10: for every prompt, \<open>build_command\<close> without a model does not fail and returns
  the list it returns for the model \<open>haiku\<close>.
\<close>

theorem C10_omitted_model_is_haiku:
  "build_command prompt None = build_command prompt (Some ''haiku'')
   \<and> build_command prompt None =
       Inr [''claude'', ''--model'', ''claude-haiku-4-5-20251001'',
            ''Answer concisely in under 100 words: '' @ prompt]"
  by (simp add: build_command_unfold resolve_model_def resolve_model_with_def get_default_model_def lower_def
      lower_char_def MODEL_ALIASES_def MODELS_def)

section \<open>Properties of the configuration\<close>

subsection \<open>Lookups after a merge\<close>

lemma map_of_fold_update:
  "map_of (fold (\<lambda>(k, v). AList.update k v) xs m) = map_of m ++ map_of (rev xs)"
proof (induction xs arbitrary: m)
  case Nil
  then show ?case by simp
next
  case (Cons x xs)
  obtain k v where x: "x = (k, v)" by (cases x)
  show ?case
    by (simp add: Cons.IH x update_conv' fun_eq_iff map_add_def split: option.splits)
qed

lemma map_of_rev_distinct:
  assumes "distinct (map fst xs)"
  shows "map_of (rev xs) = map_of xs"
proof -
  have "distinct (map fst (rev xs))"
    using assms by (simp add: rev_map [symmetric])
  then show ?thesis
    using assms by (simp add: map_of_inject_set)
qed

lemma dict_union_lookup:
  assumes "distinct (map fst d)" and "distinct (map fst u)"
  shows "map_of (dict_union d u) k = (case map_of u k of Some x \<Rightarrow> Some x | None \<Rightarrow> map_of d k)"
  using assms
  by (simp add: dict_union_def map_of_fold_update map_of_rev_distinct map_add_def)

lemma merge_step_lookup:
  "map_of (merge_step (k0, v0) m) k =
     (if k = k0 then Some (merge_value (map_of m k0) v0) else map_of m k)"
  by (simp add: update_conv' split: option.splits json.splits)

lemma fold_merge_step_lookup:
  assumes "distinct (map fst loaded)"
  shows "map_of (fold merge_step loaded m) k =
           (case map_of loaded k of
              None \<Rightarrow> map_of m k
            | Some v \<Rightarrow> Some (merge_value (map_of m k) v))"
  using assms
proof (induction loaded arbitrary: m)
  case Nil
  then show ?case by simp
next
  case (Cons x xs)
  obtain k0 v0 where x: "x = (k0, v0)" by (cases x)
  from Cons.prems have d: "distinct (map fst xs)" and notin: "k0 \<notin> fst ` set xs"
    by (simp_all add: x)
  from notin have none: "map_of xs k0 = None"
    by (simp add: map_of_eq_None_iff)
  have ih: "map_of (fold merge_step xs (merge_step (k0, v0) m)) k =
              (case map_of xs k of
                 None \<Rightarrow> map_of (merge_step (k0, v0) m) k
               | Some v \<Rightarrow> Some (merge_value (map_of (merge_step (k0, v0) m) k) v))"
    using d by (rule Cons.IH)
  have step: "fold merge_step (x # xs) m = fold merge_step xs (merge_step (k0, v0) m)"
    by (simp add: x del: merge_step.simps)
  show ?case
  proof (cases "k = k0")
    case True
    then show ?thesis
      using none unfolding step ih by (simp add: x merge_step_lookup del: merge_step.simps)
  next
    case False
    then show ?thesis
      unfolding step ih
      by (simp add: x merge_step_lookup del: merge_step.simps split: option.splits)
  qed
qed

lemma merge_with_defaults_lookup:
  assumes "distinct (map fst loaded)"
  shows "map_of (merge_with_defaults loaded) k =
           (case map_of loaded k of
              None \<Rightarrow> map_of DEFAULT_CONFIG k
            | Some v \<Rightarrow> Some (merge_value (map_of DEFAULT_CONFIG k) v))"
  unfolding merge_with_defaults_def using assms by (rule fold_merge_step_lookup)

lemma default_nested_distinct:
  assumes "map_of DEFAULT_CONFIG k = Some (JDict d)"
  shows "distinct (map fst d)"
proof -
  from assms have "(k, JDict d) \<in> set DEFAULT_CONFIG"
    by (rule map_of_SomeD)
  then show ?thesis
    by (auto simp add: DEFAULT_CONFIG_def)
qed

lemma merge_value_other:
  assumes "(\<forall>d. old \<noteq> Some (JDict d)) \<or> (\<forall>u. v \<noteq> JDict u)"
  shows "merge_value old v = v"
  using assms by (cases "(old, v)" rule: merge_value.cases) auto

text \<open>
  C5: merging a loaded configuration with the defaults keeps every key the user set.
  For a loaded mapping whose keys, and the keys of whose nested mappings, are distinct
  (as in every Python dictionary): a loaded key keeps the loaded value, unless both
  that value and the default under the same key are mappings; then the result is a
  mapping in which every nested key of the user keeps the user's value and every
  other nested key has its default; a key that was not loaded has its default.
\<close>

theorem C5_merge_preserves_user_keys:
  assumes "distinct (map fst loaded)"
    and "\<forall>k u. map_of loaded k = Some (JDict u) \<longrightarrow> distinct (map fst u)"
  shows "(\<forall>k v. map_of loaded k = Some v
            \<and> ((\<forall>d. map_of DEFAULT_CONFIG k \<noteq> Some (JDict d)) \<or> (\<forall>u. v \<noteq> JDict u))
            \<longrightarrow> map_of (merge_with_defaults loaded) k = Some v)
       \<and> (\<forall>k d u. map_of loaded k = Some (JDict u) \<and> map_of DEFAULT_CONFIG k = Some (JDict d)
            \<longrightarrow> (\<exists>m. map_of (merge_with_defaults loaded) k = Some (JDict m)
                   \<and> (\<forall>k2 x. map_of u k2 = Some x \<longrightarrow> map_of m k2 = Some x)
                   \<and> (\<forall>k2. map_of u k2 = None \<longrightarrow> map_of m k2 = map_of d k2)))
       \<and> (\<forall>k. map_of loaded k = None
            \<longrightarrow> map_of (merge_with_defaults loaded) k = map_of DEFAULT_CONFIG k)"
proof (intro conjI allI impI)
  fix k v
  assume "map_of loaded k = Some v
            \<and> ((\<forall>d. map_of DEFAULT_CONFIG k \<noteq> Some (JDict d)) \<or> (\<forall>u. v \<noteq> JDict u))"
  then show "map_of (merge_with_defaults loaded) k = Some v"
    by (simp add: merge_with_defaults_lookup [OF assms(1)] merge_value_other)
next
  fix k d u
  assume h: "map_of loaded k = Some (JDict u) \<and> map_of DEFAULT_CONFIG k = Some (JDict d)"
  then have du: "distinct (map fst u)" and dd: "distinct (map fst d)"
    using assms(2) default_nested_distinct by blast+
  have "map_of (merge_with_defaults loaded) k = Some (JDict (dict_union d u))"
    using h by (simp add: merge_with_defaults_lookup [OF assms(1)])
  moreover have "\<forall>k2 x. map_of u k2 = Some x \<longrightarrow> map_of (dict_union d u) k2 = Some x"
    by (simp add: dict_union_lookup [OF dd du])
  moreover have "\<forall>k2. map_of u k2 = None \<longrightarrow> map_of (dict_union d u) k2 = map_of d k2"
    by (simp add: dict_union_lookup [OF dd du])
  ultimately show "\<exists>m. map_of (merge_with_defaults loaded) k = Some (JDict m)
                   \<and> (\<forall>k2 x. map_of u k2 = Some x \<longrightarrow> map_of m k2 = Some x)
                   \<and> (\<forall>k2. map_of u k2 = None \<longrightarrow> map_of m k2 = map_of d k2)"
    by blast
next
  fix k
  assume "map_of loaded k = None"
  then show "map_of (merge_with_defaults loaded) k = map_of DEFAULT_CONFIG k"
    by (simp add: merge_with_defaults_lookup [OF assms(1)])
qed

lemma example_loaded_distinct: "distinct (map fst example_loaded)"
  by (simp add: example_loaded_def)

lemma example_loaded_nested:
  "\<forall>k u. map_of example_loaded k = Some (JDict u) \<longrightarrow> distinct (map fst u)"
  by (auto simp add: example_loaded_def split: if_splits)

theorem C5_merge_preserves_user_keys_witness:
  "map_of (merge_with_defaults example_loaded) ''extra'' = Some (JInt 1)
   \<and> (\<exists>m. map_of (merge_with_defaults example_loaded) ''default_models'' = Some (JDict m)
        \<and> map_of m ''third'' = Some (JStr ''x'')
        \<and> map_of m ''claude'' = Some (JStr ''haiku''))
   \<and> map_of (merge_with_defaults example_loaded) ''max_response_words'' = Some (JInt 100)"
proof -
  note c5 = C5_merge_preserves_user_keys [OF example_loaded_distinct example_loaded_nested]
  have a: "map_of (merge_with_defaults example_loaded) ''extra'' = Some (JInt 1)"
    by (rule c5 [THEN conjunct1, rule_format]) (simp add: example_loaded_def)
  have "\<exists>m. map_of (merge_with_defaults example_loaded) ''default_models'' = Some (JDict m)
        \<and> (\<forall>k2 x. map_of [(''third'', JStr ''x'')] k2 = Some x \<longrightarrow> map_of m k2 = Some x)
        \<and> (\<forall>k2. map_of [(''third'', JStr ''x'')] k2 = None \<longrightarrow>
              map_of m k2 = map_of [(''claude'', JStr ''haiku''), (''gemini'', JStr ''gemini-flash'')] k2)"
    by (rule c5 [THEN conjunct2, THEN conjunct1, rule_format])
       (simp add: example_loaded_def DEFAULT_CONFIG_def)
  then obtain m where m1: "map_of (merge_with_defaults example_loaded) ''default_models'' = Some (JDict m)"
    and m2: "\<forall>k2 x. map_of [(''third'', JStr ''x'')] k2 = Some x \<longrightarrow> map_of m k2 = Some x"
    and m3: "\<forall>k2. map_of [(''third'', JStr ''x'')] k2 = None \<longrightarrow>
              map_of m k2 = map_of [(''claude'', JStr ''haiku''), (''gemini'', JStr ''gemini-flash'')] k2"
    by (elim exE conjE)
  have t: "map_of m ''third'' = Some (JStr ''x'')"
    by (rule m2 [rule_format]) simp
  have "map_of m ''claude'' = map_of [(''claude'', JStr ''haiku''), (''gemini'', JStr ''gemini-flash'')] ''claude''"
    by (rule m3 [rule_format]) simp
  then have cl: "map_of m ''claude'' = Some (JStr ''haiku'')"
    by simp
  have b: "\<exists>m. map_of (merge_with_defaults example_loaded) ''default_models'' = Some (JDict m)
        \<and> map_of m ''third'' = Some (JStr ''x'')
        \<and> map_of m ''claude'' = Some (JStr ''haiku'')"
    using m1 t cl by (intro exI [of _ m] conjI)
  have "map_of (merge_with_defaults example_loaded) ''max_response_words''
          = map_of DEFAULT_CONFIG ''max_response_words''"
    by (rule c5 [THEN conjunct2, THEN conjunct2, rule_format]) (simp add: example_loaded_def)
  then have c: "map_of (merge_with_defaults example_loaded) ''max_response_words'' = Some (JInt 100)"
    by (simp add: DEFAULT_CONFIG_def)
  show ?thesis
    by (intro conjI a b c)
qed

section \<open>Properties of the entry point\<close>

subsection \<open>What the getters read\<close>

lemma config_get_default_provider_lookup:
  "config_get_default_provider cfg =
     (case map_of cfg ''default_provider'' of Some v \<Rightarrow> v | None \<Rightarrow> JStr ''claude'')"
  by (simp add: config_get_default_provider_def config_get_def split: option.splits)

lemma config_get_default_model_lookup:
  "config_get_default_model cfg p =
     (case map_of cfg ''default_models'' of
        Some v \<Rightarrow> get_walk v (split CHR ''.'' p) JNull
      | None \<Rightarrow> JNull)"
  by (simp add: config_get_default_model_def config_get_def split: list.splits)

lemma config_get_default_model_claude:
  "config_get_default_model cfg ''claude'' =
     (case map_of cfg ''default_models'' of
        Some (JDict d) \<Rightarrow> (case map_of d ''claude'' of Some v \<Rightarrow> v | None \<Rightarrow> JNull)
      | _ \<Rightarrow> JNull)"
  by (simp add: config_get_default_model_lookup split: option.splits json.splits)

lemma parse_args_info_flag:
  assumes "args_list_providers a \<or> truthy (opt_json (args_list_models a)) \<or> args_config_path a
           \<or> args_config_show a \<or> args_config_reset a"
  shows "parse_args a = Inr a"
  using assms by (auto simp add: parse_args_def)

text \<open>
  C2, as amended: when \<open>--dry-run\<close> is combined with a configuration flag
  (\<open>--config-path\<close>, \<open>--config-show\<close> or \<open>--config-reset\<close>), \<open>validate_args\<close> raises
  a \<open>ValueError\<close>, and \<open>main\<close> does nothing but print that error and return 1: the
  configuration is not loaded, no file is written, no action is performed.
\<close>

theorem C2_dry_run_config_flag_rejected:
  assumes "args_dry_run a"
    and "args_config_path a \<or> args_config_show a \<or> args_config_reset a"
  shows "\<exists>msg. validate_args a = Inl (ValueError msg) \<and> main w a = (1, [Stderr (''Error: '' @ msg)])"
proof -
  have p: "parse_args a = Inr a"
    using assms(2) by (intro parse_args_info_flag) blast
  have "validate_args a = Inl (ValueError ''--list-models requires a provider name'')
        \<or> validate_args a = Inl (ValueError ''--dry-run cannot be used with configuration flags'')"
    using assms by (simp add: validate_args_def)
  then obtain msg where v: "validate_args a = Inl (ValueError msg)"
    by (elim disjE) (rule that, assumption)+
  then have "main w a = (1, [Stderr (''Error: '' @ msg)])"
    by (simp add: main_def p)
  with v show ?thesis by blast
qed

theorem C2_dry_run_config_flag_rejected_witness:
  "args_dry_run dry_run_reset \<and> args_config_reset dry_run_reset
   \<and> main (example_world Missing) dry_run_reset =
       (1, [Stderr ''Error: --dry-run cannot be used with configuration flags''])"
proof -
  have a: "args_dry_run dry_run_reset"
    by (simp add: dry_run_reset_def no_flags_def)
  have b: "args_config_reset dry_run_reset"
    by (simp add: dry_run_reset_def no_flags_def)
  have v: "validate_args dry_run_reset =
             Inl (ValueError ''--dry-run cannot be used with configuration flags'')"
    by (simp add: validate_args_def dry_run_reset_def no_flags_def)
  from C2_dry_run_config_flag_rejected [OF a, of "example_world Missing"] b
  obtain msg where m: "validate_args dry_run_reset = Inl (ValueError msg)"
    and r: "main (example_world Missing) dry_run_reset = (1, [Stderr (''Error: '' @ msg)])"
    by blast
  from m v have "msg = ''--dry-run cannot be used with configuration flags''"
    by simp
  with r have "main (example_world Missing) dry_run_reset =
       (1, [Stderr ''Error: --dry-run cannot be used with configuration flags''])"
    by simp
  with a b show ?thesis by (intro conjI)
qed

text \<open>
  The claim as stated also covers the informational flags. With \<open>--dry-run\<close> and
  \<open>--list-providers\<close> validation passes, the missing configuration file is created
  and the providers are listed.
\<close>

theorem C2_dry_run_list_providers_counterexample:
  "args_dry_run dry_run_list_providers \<and> args_list_providers dry_run_list_providers
   \<and> validate_args dry_run_list_providers = Inr ()
   \<and> main (example_world Missing) dry_run_list_providers =
       (0, [SaveFile DEFAULT_CONFIG, Stdout ''Available providers:'',
            Stdout (''  '' @ availability_mark True @ '' '' @ provider_str)])"
  by (simp add: dry_run_list_providers_def no_flags_def validate_args_def main_def
      parse_args_def ConfigManager_def example_world_def save_def list_providers_def)

text \<open>
  C4, as amended: the effective model is the \<open>--model\<close> flag when it is supplied and
  not empty; otherwise the value stored under \<open>default_models\<close> for the provider
  when there is one and it is truthy; otherwise the built-in default of the provider.
\<close>

theorem C4_model_precedence:
  "(\<forall>m. args_model a = Some m \<and> m \<noteq> [] \<longrightarrow> effective_model a cfg ''claude'' = JStr m)
   \<and> (args_model a = None \<or> args_model a = Some [] \<longrightarrow>
        (\<forall>d v. map_of cfg ''default_models'' = Some (JDict d) \<and> map_of d ''claude'' = Some v
                \<and> truthy v \<longrightarrow> effective_model a cfg ''claude'' = v)
        \<and> ((\<forall>d v. map_of cfg ''default_models'' = Some (JDict d) \<and> map_of d ''claude'' = Some v
                \<longrightarrow> \<not> truthy v) \<longrightarrow> effective_model a cfg ''claude'' = JStr ''haiku''))"
proof (intro conjI allI impI)
  fix m
  assume "args_model a = Some m \<and> m \<noteq> []"
  then show "effective_model a cfg ''claude'' = JStr m"
    by (simp add: effective_model_def py_or_def)
next
  fix d v
  assume "args_model a = None \<or> args_model a = Some []"
    and "map_of cfg ''default_models'' = Some (JDict d) \<and> map_of d ''claude'' = Some v \<and> truthy v"
  then show "effective_model a cfg ''claude'' = v"
    by (auto simp add: effective_model_def py_or_def config_get_default_model_claude)
next
  assume "args_model a = None \<or> args_model a = Some []"
    and h: "\<forall>d v. map_of cfg ''default_models'' = Some (JDict d) \<and> map_of d ''claude'' = Some v
              \<longrightarrow> \<not> truthy v"
  moreover have "\<not> truthy (config_get_default_model cfg ''claude'')"
    using h by (auto simp add: config_get_default_model_claude split: option.splits json.splits)
  ultimately show "effective_model a cfg ''claude'' = JStr ''haiku''"
    by (auto simp add: effective_model_def py_or_def get_default_model_def)
qed

theorem C4_model_precedence_witness:
  "args_model opus_flag = Some ''opus'' \<and> ''opus'' \<noteq> []
   \<and> effective_model opus_flag (merge_with_defaults sonnet_config) ''claude'' = JStr ''opus''"
proof -
  have a: "args_model opus_flag = Some ''opus'' \<and> ''opus'' \<noteq> []"
    by (simp add: opus_flag_def no_flags_def)
  have "effective_model opus_flag (merge_with_defaults sonnet_config) ''claude'' = JStr ''opus''"
    by (rule C4_model_precedence [THEN conjunct1, rule_format, OF a])
  with a show ?thesis by simp
qed

text \<open>
  The claim as stated lets a supplied flag win whatever it is. With \<open>--model\<close> given
  as the empty string and \<open>sonnet\<close> stored for the provider, the stored model is
  used and its command is run.
\<close>

theorem C4_empty_model_flag_counterexample:
  "args_model empty_model_flag = Some []
   \<and> effective_model empty_model_flag (merge_with_defaults sonnet_config) ''claude'' = JStr ''sonnet''
   \<and> main (example_world (Parsed (JDict sonnet_config))) empty_model_flag =
       (0, [Run [''claude'', ''--model'', ''claude-sonnet-4-5-20250929'',
                 ''Answer concisely in under 100 words: hi'']])"
  by code_simp

subsection \<open>The command does not depend on \<open>max_response_words\<close>\<close>

lemma invoke_cong:
  assumes "map_of cfg1 ''default_provider'' = map_of cfg2 ''default_provider''"
    and "map_of cfg1 ''default_models'' = map_of cfg2 ''default_models''"
    and "claude_on_path w1 = claude_on_path w2"
    and "run_outcome w1 = run_outcome w2"
  shows "invoke w1 a cfg1 out = invoke w2 a cfg2 out"
proof -
  have p: "config_get_default_provider cfg1 = config_get_default_provider cfg2"
    by (simp add: config_get_default_provider_lookup assms(1))
  have m: "\<And>p. config_get_default_model cfg1 p = config_get_default_model cfg2 p"
    by (simp add: config_get_default_model_lookup assms(2))
  show ?thesis
    unfolding invoke_def effective_model_def p m assms(3) assms(4) by (rule refl)
qed

lemma merge_agree:
  assumes "distinct (map fst c1)" and "distinct (map fst c2)"
    and "map_of c1 k = map_of c2 k"
  shows "map_of (merge_with_defaults c1) k = map_of (merge_with_defaults c2) k"
  by (simp add: merge_with_defaults_lookup [OF assms(1)] merge_with_defaults_lookup [OF assms(2)]
      assms(3))

lemma build_command_last:
  "build_command prompt model = Inr cmd \<Longrightarrow>
   last cmd = ''Answer concisely in under 100 words: '' @ prompt"
  by (auto simp add: build_command_unfold split: sum.splits)

text \<open>
  C9: \<open>max_response_words\<close> never influences the command. For two configuration
  files that differ only in \<open>max_response_words\<close>, every run of \<open>main\<close> that does not
  print the configuration has the same exit status and the same events, the command
  that is built, shown and run among them; and the last argument of every command is
  the fixed instruction followed by the prompt.
\<close>

theorem C9_max_response_words_ignored:
  assumes "distinct (map fst c1)" and "distinct (map fst c2)"
    and "\<forall>k. k \<noteq> ''max_response_words'' \<longrightarrow> map_of c1 k = map_of c2 k"
    and "\<not> args_config_show a"
  shows "main (w\<lparr>config_file := Parsed (JDict c1)\<rparr>) a
           = main (w\<lparr>config_file := Parsed (JDict c2)\<rparr>) a
         \<and> (\<forall>prompt model cmd. build_command prompt model = Inr cmd \<longrightarrow>
               last cmd = ''Answer concisely in under 100 words: '' @ prompt)"
proof -
  let ?w1 = "w\<lparr>config_file := Parsed (JDict c1)\<rparr>"
  let ?w2 = "w\<lparr>config_file := Parsed (JDict c2)\<rparr>"
  have p: "map_of (merge_with_defaults c1) ''default_provider''
             = map_of (merge_with_defaults c2) ''default_provider''"
    using assms(3) by (intro merge_agree [OF assms(1) assms(2)]) simp
  have m: "map_of (merge_with_defaults c1) ''default_models''
             = map_of (merge_with_defaults c2) ''default_models''"
    using assms(3) by (intro merge_agree [OF assms(1) assms(2)]) simp
  have inv: "\<And>args. invoke ?w1 args (merge_with_defaults c1) []
               = invoke ?w2 args (merge_with_defaults c2) []"
    by (rule invoke_cong [OF p m]) simp_all
  have "main ?w1 a = main ?w2 a"
  proof (cases "parse_args a")
    case (Inl e)
    then show ?thesis by (simp add: main_def)
  next
    case (Inr args)
    then have args: "args = a"
      by (simp add: parse_args_def split: if_splits)
    show ?thesis
    proof (cases "validate_args a")
      case (Inl e)
      then show ?thesis using Inr by (simp add: main_def args)
    next
      case (Inr u)
      then show ?thesis
        using \<open>parse_args a = Inr args\<close> assms(4)
        by (simp add: main_def args ConfigManager_def inv list_providers_def
            reset_to_defaults_def save_def split: option.splits)
    qed
  qed
  then show ?thesis
    using build_command_last by blast
qed

theorem C9_max_response_words_ignored_witness:
  "main (example_world (Parsed (JDict words_100))) ask_hi
     = main (example_world (Parsed (JDict words_5))) ask_hi"
proof -
  have a: "distinct (map fst words_100)" and b: "distinct (map fst words_5)"
    by (simp_all add: words_100_def words_5_def)
  have c: "\<forall>k. k \<noteq> ''max_response_words'' \<longrightarrow> map_of words_100 k = map_of words_5 k"
    by (simp add: words_100_def words_5_def)
  have d: "\<not> args_config_show ask_hi"
    by (simp add: ask_hi_def no_flags_def)
  have e: "\<And>c. (example_world Missing)\<lparr>config_file := Parsed (JDict c)\<rparr>
              = example_world (Parsed (JDict c))"
    by (simp add: example_world_def)
  from C9_max_response_words_ignored [OF a b c d, of "example_world Missing", THEN conjunct1]
  show ?thesis
    by (simp only: e)
qed

end
